theory Spec2Isabelle
  imports Main
begin

section \<open>Python values, strings and validation errors\<close>

text \<open>
  The configuration classes of \<^verbatim>\<open>foundations/01_type_system\<close> are pydantic models:
  a class lists typed fields, field validators (run per field, after the type check) and
  model validators of mode \<^verbatim>\<open>after\<close> (run on the built object once every field passed).
  A validator that raises \<^verbatim>\<open>ValueError\<close> makes the construction raise a validation
  error; here a construction returns \<open>Inl\<close> of the list of errors, or \<open>Inr\<close> of the object.
  Constructions take well-typed arguments: a call that omits a required field or passes a
  value of another type is rejected by pydantic before any validator of the source runs.
  An optional field that the caller leaves out is passed as its declared default.

  A string is a list of code points below 256, one \<open>char\<close> each (Basic Latin and Latin-1
  Supplement). On these \<open>isspace_chr\<close>, \<open>isalnum_chr\<close> and \<open>lower_chr\<close> are Python's
  \<^verbatim>\<open>str.isspace\<close>, \<^verbatim>\<open>str.isalnum\<close> and \<^verbatim>\<open>str.lower\<close>: the no-break space and the next-line
  control are whitespace, accented letters, superscript digits and vulgar fractions are
  alphanumeric, and the capital letters from U+00C0 to U+00DE have lower-case forms.
  Strings with code points from 256 on are outside the model.
\<close>

datatype pyval =
    PNone
  | PBool bool
  | PInt int
  | PStr string
  | PList "pyval list"
  | PDict "(string \<times> pyval) list"

datatype error =
    ValueError string
  | FrozenInstance

definition py_ord :: "char \<Rightarrow> nat" where
  "py_ord c = of_char c"


text \<open>\<^verbatim>\<open>c.isspace()\<close>: U+0009 to U+000D, U+001C to U+0020, U+0085 and U+00A0.\<close>

definition isspace_chr :: "char \<Rightarrow> bool" where
  "isspace_chr c =
     ((9 \<le> py_ord c \<and> py_ord c \<le> 13) \<or> (28 \<le> py_ord c \<and> py_ord c \<le> 32)
      \<or> py_ord c = 133 \<or> py_ord c = 160)"

text \<open>
  \<^verbatim>\<open>c.isupper()\<close>: \<^verbatim>\<open>A\<close> to \<^verbatim>\<open>Z\<close>, U+00C0 to U+00D6 and U+00D8 to U+00DE. These are the
  characters that \<^verbatim>\<open>str.lower\<close> changes, each to the code point 32 above it.
\<close>

definition isupper_chr :: "char \<Rightarrow> bool" where
  "isupper_chr c =
     ((65 \<le> py_ord c \<and> py_ord c \<le> 90) \<or> (192 \<le> py_ord c \<and> py_ord c \<le> 214)
      \<or> (216 \<le> py_ord c \<and> py_ord c \<le> 222))"

definition lower_chr :: "char \<Rightarrow> char" where
  "lower_chr c = (if isupper_chr c then char_of (py_ord c + 32) else c)"

text \<open>
  \<^verbatim>\<open>c.isalnum()\<close>: the ASCII digits and letters; U+00AA, U+00B5 and U+00BA (letters);
  U+00B2, U+00B3 and U+00B9 (superscript digits); U+00BC to U+00BE (fractions); and the
  letters U+00C0 to U+00FF without the signs U+00D7 and U+00F7.
\<close>

definition isalnum_chr :: "char \<Rightarrow> bool" where
  "isalnum_chr c =
     ((48 \<le> py_ord c \<and> py_ord c \<le> 57) \<or> (65 \<le> py_ord c \<and> py_ord c \<le> 90)
      \<or> (97 \<le> py_ord c \<and> py_ord c \<le> 122)
      \<or> py_ord c = 170 \<or> (178 \<le> py_ord c \<and> py_ord c \<le> 179) \<or> py_ord c = 181
      \<or> (185 \<le> py_ord c \<and> py_ord c \<le> 186) \<or> (188 \<le> py_ord c \<and> py_ord c \<le> 190)
      \<or> (192 \<le> py_ord c \<and> py_ord c \<le> 214) \<or> (216 \<le> py_ord c \<and> py_ord c \<le> 246)
      \<or> (248 \<le> py_ord c \<and> py_ord c \<le> 255))"

text \<open>\<^verbatim>\<open>v.strip()\<close>: leading and trailing whitespace removed.\<close>

definition strip :: "string \<Rightarrow> string" where
  "strip s = rev (dropWhile isspace_chr (rev (dropWhile isspace_chr s)))"

text \<open>\<^verbatim>\<open>v.lower()\<close>.\<close>

definition lower :: "string \<Rightarrow> string" where
  "lower s = map lower_chr s"

text \<open>\<^verbatim>\<open>v.isalnum()\<close>: every character is alphanumeric and there is at least one.\<close>

definition isalnum :: "string \<Rightarrow> bool" where
  "isalnum s = (s \<noteq> [] \<and> list_all isalnum_chr s)"

text \<open>\<^verbatim>\<open>v.replace("_", "")\<close>: every underscore removed.\<close>

definition replace_underscore :: "string \<Rightarrow> string" where
  "replace_underscore s = filter (\<lambda>c. c \<noteq> CHR ''_'') s"

text \<open>
  Truth value of an \<^verbatim>\<open>Optional[str]\<close> in a condition (\<^verbatim>\<open>not self.path\<close>):
  \<^verbatim>\<open>None\<close> and the empty string are false.
\<close>

fun truthy :: "string option \<Rightarrow> bool" where
  "truthy None = False"
| "truthy (Some s) = (s \<noteq> [])"



section \<open>lesson.py\<close>

subsection \<open>NodeConfig: field validators\<close>

record L_NodeConfig =
  lnc_name :: string
  lnc_depends_on :: "string list"
  lnc_timeout :: "int option"

definition L_NodeConfig_validate_name :: "string \<Rightarrow> error + string" where
  "L_NodeConfig_validate_name v0 =
     (let v = strip v0 in
      if v = [] then Inl (ValueError ''Node name cannot be empty'')
      else if \<not> isalnum (replace_underscore v)
        then Inl (ValueError (''Node name '' @ [CHR 0x27] @ v @ [CHR 0x27]
                              @ '' must be alphanumeric with underscores''))
      else Inr (lower v))"

text \<open>\<^verbatim>\<open>len(v) != len(set(v))\<close>: the list has fewer distinct entries than entries.\<close>

definition L_NodeConfig_validate_dependencies :: "string list \<Rightarrow> error + string list" where
  "L_NodeConfig_validate_dependencies v =
     (if length v \<noteq> card (set v) then Inl (ValueError ''Duplicate dependencies not allowed'')
      else Inr v)"

definition L_NodeConfig_init ::
  "string \<Rightarrow> string list \<Rightarrow> int option \<Rightarrow> error list + L_NodeConfig" where
  "L_NodeConfig_init name depends_on timeout =
     (case L_NodeConfig_validate_name name of
        Inl e1 \<Rightarrow>
          (case L_NodeConfig_validate_dependencies depends_on of
             Inl e2 \<Rightarrow> Inl [e1, e2]
           | Inr d \<Rightarrow> Inl [e1])
      | Inr n \<Rightarrow>
          (case L_NodeConfig_validate_dependencies depends_on of
             Inl e2 \<Rightarrow> Inl [e2]
           | Inr d \<Rightarrow> Inr \<lparr>lnc_name = n, lnc_depends_on = d, lnc_timeout = timeout\<rparr>))"

subsection \<open>WriteConfig: a model validator over two fields\<close>

datatype WriteMode = OVERWRITE | APPEND

record L_WriteConfig =
  lwc_connection :: string
  lwc_path :: "string option"
  lwc_table :: "string option"
  lwc_mode :: WriteMode

definition L_WriteConfig_check_path_or_table :: "L_WriteConfig \<Rightarrow> error + L_WriteConfig" where
  "L_WriteConfig_check_path_or_table self =
     (if \<not> truthy (lwc_path self) \<and> \<not> truthy (lwc_table self)
        then Inl (ValueError ''Either 'path' or 'table' must be provided'')
      else if truthy (lwc_path self) \<and> truthy (lwc_table self)
        then Inl (ValueError (''Cannot specify both 'path' and 'table'' @ [CHR 0x27]))
      else Inr self)"

definition L_WriteConfig_init ::
  "string \<Rightarrow> string option \<Rightarrow> string option \<Rightarrow> WriteMode \<Rightarrow> error list + L_WriteConfig" where
  "L_WriteConfig_init connection path table mode =
     (case L_WriteConfig_check_path_or_table
             \<lparr>lwc_connection = connection, lwc_path = path, lwc_table = table, lwc_mode = mode\<rparr> of
        Inl e \<Rightarrow> Inl [e]
      | Inr self \<Rightarrow> Inr self)"

subsection \<open>ReadConfig, TransformStep, TransformConfig\<close>

record L_ReadConfig =
  lrc_connection :: string
  lrc_format :: string
  lrc_path :: string
  lrc_options :: "(string \<times> pyval) list"

record L_TransformStep =
  lts_sql :: "string option"
  lts_function :: "string option"
  lts_params :: "(string \<times> pyval) list"

definition L_TransformStep_check_exactly_one :: "L_TransformStep \<Rightarrow> error + L_TransformStep" where
  "L_TransformStep_check_exactly_one self =
     (if \<not> truthy (lts_sql self) \<and> \<not> truthy (lts_function self)
        then Inl (ValueError (''Must provide either 'sql' or 'function'' @ [CHR 0x27]))
      else if truthy (lts_sql self) \<and> truthy (lts_function self)
        then Inl (ValueError (''Cannot provide both 'sql' and 'function'' @ [CHR 0x27]))
      else Inr self)"

definition L_TransformStep_init ::
  "string option \<Rightarrow> string option \<Rightarrow> (string \<times> pyval) list \<Rightarrow> error list + L_TransformStep" where
  "L_TransformStep_init sql function params =
     (case L_TransformStep_check_exactly_one
             \<lparr>lts_sql = sql, lts_function = function, lts_params = params\<rparr> of
        Inl e \<Rightarrow> Inl [e]
      | Inr self \<Rightarrow> Inr self)"

record L_TransformConfig =
  ltc_steps :: "L_TransformStep list"

definition L_TransformConfig_validate_non_empty ::
  "L_TransformStep list \<Rightarrow> error + L_TransformStep list" where
  "L_TransformConfig_validate_non_empty v =
     (if v = [] then Inl (ValueError ''Transform must have at least one step'') else Inr v)"

definition L_TransformConfig_init :: "L_TransformStep list \<Rightarrow> error list + L_TransformConfig" where
  "L_TransformConfig_init steps =
     (case L_TransformConfig_validate_non_empty steps of
        Inl e \<Rightarrow> Inl [e]
      | Inr v \<Rightarrow> Inr \<lparr>ltc_steps = v\<rparr>)"

subsection \<open>CompleteNodeConfig\<close>

record L_CompleteNodeConfig =
  cnc_name :: string
  cnc_description :: "string option"
  cnc_depends_on :: "string list"
  cnc_read :: "L_ReadConfig option"
  cnc_transform :: "L_TransformConfig option"
  cnc_write :: "L_WriteConfig option"

definition L_CompleteNodeConfig_validate_name :: "string \<Rightarrow> error + string" where
  "L_CompleteNodeConfig_validate_name v0 =
     (let v = lower (strip v0) in
      if \<not> isalnum (replace_underscore v)
        then Inl (ValueError ''Name must be alphanumeric with underscores'')
      else Inr v)"

text \<open>
  \<^verbatim>\<open>any([self.read, self.transform, self.write])\<close>: a model object is always true in a
  condition (the classes define neither \<^verbatim>\<open>__bool__\<close> nor \<^verbatim>\<open>__len__\<close>), so an entry
  counts exactly when it is not \<^verbatim>\<open>None\<close>.
\<close>

definition L_CompleteNodeConfig_check_has_operation ::
  "L_CompleteNodeConfig \<Rightarrow> error + L_CompleteNodeConfig" where
  "L_CompleteNodeConfig_check_has_operation self =
     (if \<not> (cnc_read self \<noteq> None \<or> cnc_transform self \<noteq> None \<or> cnc_write self \<noteq> None)
        then Inl (ValueError (''Node '' @ [CHR 0x27] @ cnc_name self @ [CHR 0x27]
                              @ '' must have at least one operation''))
      else Inr self)"

definition L_CompleteNodeConfig_init ::
  "string \<Rightarrow> string option \<Rightarrow> string list \<Rightarrow> L_ReadConfig option \<Rightarrow> L_TransformConfig option
     \<Rightarrow> L_WriteConfig option \<Rightarrow> error list + L_CompleteNodeConfig" where
  "L_CompleteNodeConfig_init name description depends_on read transform write =
     (case L_CompleteNodeConfig_validate_name name of
        Inl e \<Rightarrow> Inl [e]
      | Inr n \<Rightarrow>
          (case L_CompleteNodeConfig_check_has_operation
                  \<lparr>cnc_name = n, cnc_description = description, cnc_depends_on = depends_on,
                   cnc_read = read, cnc_transform = transform, cnc_write = write\<rparr> of
             Inl e \<Rightarrow> Inl [e]
           | Inr self \<Rightarrow> Inr self))"

section \<open>odibi\_snippets.py\<close>

record O_ReadConfig =
  orc_connection :: string
  orc_format :: string
  orc_table :: "string option"
  orc_path :: "string option"
  orc_options :: "(string \<times> pyval) list"

definition O_ReadConfig_check_table_or_path :: "O_ReadConfig \<Rightarrow> error + O_ReadConfig" where
  "O_ReadConfig_check_table_or_path self =
     (if \<not> truthy (orc_table self) \<and> \<not> truthy (orc_path self)
        then Inl (ValueError ''Either 'table' or 'path' must be provided for read config'')
      else Inr self)"

definition O_ReadConfig_init ::
  "string \<Rightarrow> string \<Rightarrow> string option \<Rightarrow> string option \<Rightarrow> (string \<times> pyval) list
     \<Rightarrow> error list + O_ReadConfig" where
  "O_ReadConfig_init connection format table path options =
     (case O_ReadConfig_check_table_or_path
             \<lparr>orc_connection = connection, orc_format = format, orc_table = table,
              orc_path = path, orc_options = options\<rparr> of
        Inl e \<Rightarrow> Inl [e]
      | Inr self \<Rightarrow> Inr self)"

record O_TransformStep =
  ots_sql :: "string option"
  ots_function :: "string option"
  ots_operation :: "string option"
  ots_params :: "(string \<times> pyval) list"

text \<open>\<^verbatim>\<open>sum(x is not None for x in step_types)\<close>.\<close>

definition count_not_None :: "string option list \<Rightarrow> nat" where
  "count_not_None xs = length (filter (\<lambda>x. x \<noteq> None) xs)"

definition O_TransformStep_check_step_type :: "O_TransformStep \<Rightarrow> error + O_TransformStep" where
  "O_TransformStep_check_step_type self =
     (let step_types = [ots_sql self, ots_function self, ots_operation self] in
      if count_not_None step_types \<noteq> 1
        then Inl (ValueError
                    ''Exactly one of 'sql', 'function', or 'operation' must be provided'')
      else Inr self)"

definition O_TransformStep_init ::
  "string option \<Rightarrow> string option \<Rightarrow> string option \<Rightarrow> (string \<times> pyval) list
     \<Rightarrow> error list + O_TransformStep" where
  "O_TransformStep_init sql function operation params =
     (case O_TransformStep_check_step_type
             \<lparr>ots_sql = sql, ots_function = function, ots_operation = operation,
              ots_params = params\<rparr> of
        Inl e \<Rightarrow> Inl [e]
      | Inr self \<Rightarrow> Inr self)"

record O_ValidationConfig =
  ovc_schema_validation :: "(string \<times> pyval) list option"
  ovc_not_empty :: bool
  ovc_no_nulls :: "string list"

record O_WriteConfig =
  owc_connection :: string
  owc_format :: string
  owc_table :: "string option"
  owc_path :: "string option"
  owc_mode :: WriteMode
  owc_options :: "(string \<times> pyval) list"

definition O_WriteConfig_check_table_or_path :: "O_WriteConfig \<Rightarrow> error + O_WriteConfig" where
  "O_WriteConfig_check_table_or_path self =
     (if \<not> truthy (owc_table self) \<and> \<not> truthy (owc_path self)
        then Inl (ValueError ''Either 'table' or 'path' must be provided for write config'')
      else Inr self)"

definition O_WriteConfig_init ::
  "string \<Rightarrow> string \<Rightarrow> string option \<Rightarrow> string option \<Rightarrow> WriteMode \<Rightarrow> (string \<times> pyval) list
     \<Rightarrow> error list + O_WriteConfig" where
  "O_WriteConfig_init connection format table path mode options =
     (case O_WriteConfig_check_table_or_path
             \<lparr>owc_connection = connection, owc_format = format, owc_table = table,
              owc_path = path, owc_mode = mode, owc_options = options\<rparr> of
        Inl e \<Rightarrow> Inl [e]
      | Inr self \<Rightarrow> Inr self)"

text \<open>
  NodeConfig names a class \<^verbatim>\<open>TransformConfig\<close> that odibi\_snippets.py does not define;
  the type of the \<^verbatim>\<open>transform\<close> field is a parameter \<open>'t\<close> of the model.
\<close>

record 't O_NodeConfig =
  onc_name :: string
  onc_description :: "string option"
  onc_depends_on :: "string list"
  onc_read :: "O_ReadConfig option"
  onc_transform :: "'t option"
  onc_write :: "O_WriteConfig option"
  onc_cache :: bool
  onc_validation :: "O_ValidationConfig option"

definition O_NodeConfig_check_at_least_one_operation ::
  "'t O_NodeConfig \<Rightarrow> error + 't O_NodeConfig" where
  "O_NodeConfig_check_at_least_one_operation self =
     (if \<not> (onc_read self \<noteq> None \<or> onc_transform self \<noteq> None \<or> onc_write self \<noteq> None)
        then Inl (ValueError (''Node '' @ [CHR 0x27] @ onc_name self @ [CHR 0x27]
                              @ '' must have at least one of: read, transform, write''))
      else Inr self)"

definition O_NodeConfig_init ::
  "string \<Rightarrow> string option \<Rightarrow> string list \<Rightarrow> O_ReadConfig option \<Rightarrow> 't option
     \<Rightarrow> O_WriteConfig option \<Rightarrow> bool \<Rightarrow> O_ValidationConfig option
     \<Rightarrow> error list + 't O_NodeConfig" where
  "O_NodeConfig_init name description depends_on read transform write cache validation =
     (case O_NodeConfig_check_at_least_one_operation
             \<lparr>onc_name = name, onc_description = description, onc_depends_on = depends_on,
              onc_read = read, onc_transform = transform, onc_write = write,
              onc_cache = cache, onc_validation = validation\<rparr> of
        Inl e \<Rightarrow> Inl [e]
      | Inr self \<Rightarrow> Inr self)"

section \<open>exercises.py\<close>

text \<open>
  \<^verbatim>\<open>class PipelineConfig(BaseModel): pass\<close>: the class declares no field and no validator
  (its fields and validators are listed in a TODO comment only). Pydantic ignores keyword
  arguments that name no declared field, so the construction returns an object without
  fields for every document.
\<close>

datatype E_PipelineConfig = E_PipelineConfig

definition E_PipelineConfig_init :: "(string \<times> pyval) list \<Rightarrow> error list + E_PipelineConfig" where
  "E_PipelineConfig_init kwargs = Inr E_PipelineConfig"

section \<open>Assignment to a field of a constructed object\<close>

text \<open>
  What \<^verbatim>\<open>obj.field = value\<close> does on a pydantic model is set by the \<^verbatim>\<open>model_config\<close> of
  the class: a frozen model rejects the assignment; another model stores the value, and
  validates the changed object again only under \<^verbatim>\<open>validate_assignment\<close>. No class of the
  source declares a \<^verbatim>\<open>model_config\<close>, so every class has pydantic's defaults: it is not
  frozen and an assignment is not validated.
\<close>

record ConfigDict =
  frozen :: bool
  validate_assignment :: bool

definition model_config :: ConfigDict where
  "model_config = \<lparr>frozen = False, validate_assignment = False\<rparr>"

definition setattr ::
  "ConfigDict \<Rightarrow> ('a \<Rightarrow> error + 'a) \<Rightarrow> ('a \<Rightarrow> 'a) \<Rightarrow> 'a \<Rightarrow> error list + 'a" where
  "setattr config validate update self =
     (if frozen config then Inl [FrozenInstance]
      else if validate_assignment config
        then (case validate (update self) of Inl e \<Rightarrow> Inl [e] | Inr changed \<Rightarrow> Inr changed)
      else Inr (update self))"

datatype O_ReadConfig_field =
    Set_orc_connection string
  | Set_orc_format string
  | Set_orc_table "string option"
  | Set_orc_path "string option"
  | Set_orc_options "(string \<times> pyval) list"

fun O_ReadConfig_update :: "O_ReadConfig_field \<Rightarrow> O_ReadConfig \<Rightarrow> O_ReadConfig" where
  "O_ReadConfig_update (Set_orc_connection v) self = self\<lparr>orc_connection := v\<rparr>"
| "O_ReadConfig_update (Set_orc_format v) self = self\<lparr>orc_format := v\<rparr>"
| "O_ReadConfig_update (Set_orc_table v) self = self\<lparr>orc_table := v\<rparr>"
| "O_ReadConfig_update (Set_orc_path v) self = self\<lparr>orc_path := v\<rparr>"
| "O_ReadConfig_update (Set_orc_options v) self = self\<lparr>orc_options := v\<rparr>"

definition O_ReadConfig_setattr ::
  "O_ReadConfig_field \<Rightarrow> O_ReadConfig \<Rightarrow> error list + O_ReadConfig" where
  "O_ReadConfig_setattr field self =
     setattr model_config O_ReadConfig_check_table_or_path (O_ReadConfig_update field) self"

datatype O_TransformStep_field =
    Set_ots_sql "string option"
  | Set_ots_function "string option"
  | Set_ots_operation "string option"
  | Set_ots_params "(string \<times> pyval) list"

fun O_TransformStep_update :: "O_TransformStep_field \<Rightarrow> O_TransformStep \<Rightarrow> O_TransformStep" where
  "O_TransformStep_update (Set_ots_sql v) self = self\<lparr>ots_sql := v\<rparr>"
| "O_TransformStep_update (Set_ots_function v) self = self\<lparr>ots_function := v\<rparr>"
| "O_TransformStep_update (Set_ots_operation v) self = self\<lparr>ots_operation := v\<rparr>"
| "O_TransformStep_update (Set_ots_params v) self = self\<lparr>ots_params := v\<rparr>"

definition O_TransformStep_setattr ::
  "O_TransformStep_field \<Rightarrow> O_TransformStep \<Rightarrow> error list + O_TransformStep" where
  "O_TransformStep_setattr field self =
     setattr model_config O_TransformStep_check_step_type (O_TransformStep_update field) self"

datatype O_WriteConfig_field =
    Set_owc_connection string
  | Set_owc_format string
  | Set_owc_table "string option"
  | Set_owc_path "string option"
  | Set_owc_mode WriteMode
  | Set_owc_options "(string \<times> pyval) list"

fun O_WriteConfig_update :: "O_WriteConfig_field \<Rightarrow> O_WriteConfig \<Rightarrow> O_WriteConfig" where
  "O_WriteConfig_update (Set_owc_connection v) self = self\<lparr>owc_connection := v\<rparr>"
| "O_WriteConfig_update (Set_owc_format v) self = self\<lparr>owc_format := v\<rparr>"
| "O_WriteConfig_update (Set_owc_table v) self = self\<lparr>owc_table := v\<rparr>"
| "O_WriteConfig_update (Set_owc_path v) self = self\<lparr>owc_path := v\<rparr>"
| "O_WriteConfig_update (Set_owc_mode v) self = self\<lparr>owc_mode := v\<rparr>"
| "O_WriteConfig_update (Set_owc_options v) self = self\<lparr>owc_options := v\<rparr>"

definition O_WriteConfig_setattr ::
  "O_WriteConfig_field \<Rightarrow> O_WriteConfig \<Rightarrow> error list + O_WriteConfig" where
  "O_WriteConfig_setattr field self =
     setattr model_config O_WriteConfig_check_table_or_path (O_WriteConfig_update field) self"

datatype 't O_NodeConfig_field =
    Set_onc_name string
  | Set_onc_description "string option"
  | Set_onc_depends_on "string list"
  | Set_onc_read "O_ReadConfig option"
  | Set_onc_transform "'t option"
  | Set_onc_write "O_WriteConfig option"
  | Set_onc_cache bool
  | Set_onc_validation "O_ValidationConfig option"

fun O_NodeConfig_update :: "'t O_NodeConfig_field \<Rightarrow> 't O_NodeConfig \<Rightarrow> 't O_NodeConfig" where
  "O_NodeConfig_update (Set_onc_name v) self = self\<lparr>onc_name := v\<rparr>"
| "O_NodeConfig_update (Set_onc_description v) self = self\<lparr>onc_description := v\<rparr>"
| "O_NodeConfig_update (Set_onc_depends_on v) self = self\<lparr>onc_depends_on := v\<rparr>"
| "O_NodeConfig_update (Set_onc_read v) self = self\<lparr>onc_read := v\<rparr>"
| "O_NodeConfig_update (Set_onc_transform v) self = self\<lparr>onc_transform := v\<rparr>"
| "O_NodeConfig_update (Set_onc_write v) self = self\<lparr>onc_write := v\<rparr>"
| "O_NodeConfig_update (Set_onc_cache v) self = self\<lparr>onc_cache := v\<rparr>"
| "O_NodeConfig_update (Set_onc_validation v) self = self\<lparr>onc_validation := v\<rparr>"

definition O_NodeConfig_setattr ::
  "'t O_NodeConfig_field \<Rightarrow> 't O_NodeConfig \<Rightarrow> error list + 't O_NodeConfig" where
  "O_NodeConfig_setattr field self =
     setattr model_config O_NodeConfig_check_at_least_one_operation
       (O_NodeConfig_update field) self"

section \<open>Facts about the string operations and the validators\<close>














lemma len_set_distinct: "(length v \<noteq> card (set v)) = (\<not> distinct v)"
  using card_distinct [of v] distinct_card [of v] by auto

lemma L_NodeConfig_validate_dependencies_eq:
  "L_NodeConfig_validate_dependencies v =
     (if distinct v then Inr v else Inl (ValueError ''Duplicate dependencies not allowed''))"
  by (simp add: L_NodeConfig_validate_dependencies_def len_set_distinct)

section \<open>The claims\<close>

text \<open>
  Claim C1 asks PipelineConfig to reject jobs whose \<^verbatim>\<open>depends_on\<close> lists form a cycle.
  The class is declared with an empty body; the validator that the comment above it lists
  (no circular dependencies) is not written. The document of the specification's example,
  job \<^verbatim>\<open>a\<close> depending on \<^verbatim>\<open>b\<close> and \<^verbatim>\<open>b\<close> on \<^verbatim>\<open>a\<close>, is accepted.
\<close>

theorem C1_cyclic_jobs_accepted:
  "E_PipelineConfig_init
     [(''jobs'', PList [PDict [(''name'', PStr ''a''), (''depends_on'', PList [PStr ''b''])],
                        PDict [(''name'', PStr ''b''), (''depends_on'', PList [PStr ''a''])]])]
     = Inr E_PipelineConfig"
  by (simp add: E_PipelineConfig_init_def)

text \<open>
  Claim C2, as stated, asks every ReadConfig and WriteConfig to reject a call that gives
  both \<^verbatim>\<open>path\<close> and \<^verbatim>\<open>table\<close>. ReadConfig of odibi\_snippets.py accepts such a call:
  its validator only rejects the case where neither is given.
\<close>

theorem C2_both_given_counterexample:
  "O_ReadConfig_init ''x'' ''csv'' (Some ''bronze.users'') (Some ''/data/users.csv'') []
     = Inr \<lparr>orc_connection = ''x'', orc_format = ''csv'', orc_table = Some ''bronze.users'',
            orc_path = Some ''/data/users.csv'', orc_options = []\<rparr>"
  by (simp add: O_ReadConfig_init_def O_ReadConfig_check_table_or_path_def)

text \<open>
  Claim C2, amended. WriteConfig of lesson.py is constructed exactly when one of
  \<^verbatim>\<open>path\<close>, \<^verbatim>\<open>table\<close> is non-empty and the other is empty or absent. ReadConfig and
  WriteConfig of odibi\_snippets.py are constructed exactly when at least one of
  \<^verbatim>\<open>table\<close>, \<^verbatim>\<open>path\<close> is non-empty: giving both is accepted. The object built holds the
  fields as given.
\<close>

theorem C2_path_table_rule:
  "((L_WriteConfig_init connection path table mode = Inr lw) \<longleftrightarrow>
      ((truthy path \<and> \<not> truthy table) \<or> (\<not> truthy path \<and> truthy table)) \<and>
      lw = \<lparr>lwc_connection = connection, lwc_path = path, lwc_table = table, lwc_mode = mode\<rparr>)
   \<and> ((O_ReadConfig_init connection format table path options = Inr r) \<longleftrightarrow>
      (truthy table \<or> truthy path) \<and>
      r = \<lparr>orc_connection = connection, orc_format = format, orc_table = table,
           orc_path = path, orc_options = options\<rparr>)
   \<and> ((O_WriteConfig_init connection format table path mode options = Inr w) \<longleftrightarrow>
      (truthy table \<or> truthy path) \<and>
      w = \<lparr>owc_connection = connection, owc_format = format, owc_table = table,
           owc_path = path, owc_mode = mode, owc_options = options\<rparr>)"
proof (intro conjI)
  show "(L_WriteConfig_init connection path table mode = Inr lw) \<longleftrightarrow>
      ((truthy path \<and> \<not> truthy table) \<or> (\<not> truthy path \<and> truthy table)) \<and>
      lw = \<lparr>lwc_connection = connection, lwc_path = path, lwc_table = table, lwc_mode = mode\<rparr>"
    by (auto simp: L_WriteConfig_init_def L_WriteConfig_check_path_or_table_def)
  show "(O_ReadConfig_init connection format table path options = Inr r) \<longleftrightarrow>
      (truthy table \<or> truthy path) \<and>
      r = \<lparr>orc_connection = connection, orc_format = format, orc_table = table,
           orc_path = path, orc_options = options\<rparr>"
    by (auto simp: O_ReadConfig_init_def O_ReadConfig_check_table_or_path_def)
  show "(O_WriteConfig_init connection format table path mode options = Inr w) \<longleftrightarrow>
      (truthy table \<or> truthy path) \<and>
      w = \<lparr>owc_connection = connection, owc_format = format, owc_table = table,
           owc_path = path, owc_mode = mode, owc_options = options\<rparr>"
    by (auto simp: O_WriteConfig_init_def O_WriteConfig_check_table_or_path_def)
qed

text \<open>
  Claim C2, the amended rule at the calls of \<^verbatim>\<open>demo_model_validator\<close> and at two
  ReadConfig calls.
\<close>

theorem C2_path_table_rule_witness:
  "L_WriteConfig_init ''local'' (Some ''/data/output.csv'') None OVERWRITE
     = Inr \<lparr>lwc_connection = ''local'', lwc_path = Some ''/data/output.csv'', lwc_table = None,
            lwc_mode = OVERWRITE\<rparr>
   \<and> (\<forall>lw. L_WriteConfig_init ''local'' (Some ''/data/out.csv'') (Some ''users'') OVERWRITE \<noteq> Inr lw)
   \<and> (\<forall>lw. L_WriteConfig_init ''local'' None None OVERWRITE \<noteq> Inr lw)
   \<and> O_ReadConfig_init ''x'' ''csv'' (Some ''t'') (Some ''p'') []
     = Inr \<lparr>orc_connection = ''x'', orc_format = ''csv'', orc_table = Some ''t'',
            orc_path = Some ''p'', orc_options = []\<rparr>
   \<and> (\<forall>r. O_ReadConfig_init ''x'' ''csv'' None None [] \<noteq> Inr r)"
  using C2_path_table_rule [where connection = "''local''" and path = "Some ''/data/output.csv''"
                              and table = None and mode = OVERWRITE]
        C2_path_table_rule [where connection = "''local''" and path = "Some ''/data/out.csv''"
                              and table = "Some ''users''" and mode = OVERWRITE]
        C2_path_table_rule [where connection = "''local''" and path = None
                              and table = None and mode = OVERWRITE]
        C2_path_table_rule [where connection = "''x''" and format = "''csv''"
                              and table = "Some ''t''" and path = "Some ''p''" and options = "[]"]
        C2_path_table_rule [where connection = "''x''" and format = "''csv''"
                              and table = None and path = None and options = "[]"]
  by simp




text \<open>
  Claim C4, as stated, counts the non-empty candidates. TransformStep of odibi\_snippets.py
  counts the candidates that are not \<^verbatim>\<open>None\<close>: \<^verbatim>\<open>TransformStep(sql="")\<close> has no
  non-empty candidate and is constructed.
\<close>

theorem C4_empty_sql_counterexample:
  "\<not> truthy (Some '''')
   \<and> O_TransformStep_init (Some '''') None None []
       = Inr \<lparr>ots_sql = Some '''', ots_function = None, ots_operation = None, ots_params = []\<rparr>"
  by (simp add: O_TransformStep_init_def O_TransformStep_check_step_type_def count_not_None_def)

text \<open>
  Claim C4, amended. TransformStep of odibi\_snippets.py is constructed exactly when one of
  \<^verbatim>\<open>sql\<close>, \<^verbatim>\<open>function\<close>, \<^verbatim>\<open>operation\<close> is not \<^verbatim>\<open>None\<close> (an empty string counts as
  given). TransformStep of lesson.py, which has no \<^verbatim>\<open>operation\<close> field, is constructed
  exactly when one of \<^verbatim>\<open>sql\<close>, \<^verbatim>\<open>function\<close> is non-empty and the other is empty or
  absent.
\<close>

theorem C4_exactly_one_step_type:
  "((O_TransformStep_init sql func operation params = Inr step) \<longleftrightarrow>
      ((sql \<noteq> None \<and> func = None \<and> operation = None)
       \<or> (sql = None \<and> func \<noteq> None \<and> operation = None)
       \<or> (sql = None \<and> func = None \<and> operation \<noteq> None)) \<and>
      step = \<lparr>ots_sql = sql, ots_function = func, ots_operation = operation,
              ots_params = params\<rparr>)
   \<and> ((L_TransformStep_init sql func params = Inr lstep) \<longleftrightarrow>
      ((truthy sql \<and> \<not> truthy func) \<or> (\<not> truthy sql \<and> truthy func)) \<and>
      lstep = \<lparr>lts_sql = sql, lts_function = func, lts_params = params\<rparr>)"
proof (intro conjI)
  have count: "(count_not_None [sql, func, operation] = 1) \<longleftrightarrow>
      ((sql \<noteq> None \<and> func = None \<and> operation = None)
       \<or> (sql = None \<and> func \<noteq> None \<and> operation = None)
       \<or> (sql = None \<and> func = None \<and> operation \<noteq> None))"
    by (cases sql; cases func; cases operation) (simp_all add: count_not_None_def)
  show "(O_TransformStep_init sql func operation params = Inr step) \<longleftrightarrow>
      ((sql \<noteq> None \<and> func = None \<and> operation = None)
       \<or> (sql = None \<and> func \<noteq> None \<and> operation = None)
       \<or> (sql = None \<and> func = None \<and> operation \<noteq> None)) \<and>
      step = \<lparr>ots_sql = sql, ots_function = func, ots_operation = operation,
              ots_params = params\<rparr>"
    unfolding count [symmetric]
    by (auto simp: O_TransformStep_init_def O_TransformStep_check_step_type_def)
  show "(L_TransformStep_init sql func params = Inr lstep) \<longleftrightarrow>
      ((truthy sql \<and> \<not> truthy func) \<or> (\<not> truthy sql \<and> truthy func)) \<and>
      lstep = \<lparr>lts_sql = sql, lts_function = func, lts_params = params\<rparr>"
    by (auto simp: L_TransformStep_init_def L_TransformStep_check_exactly_one_def)
qed

text \<open>
  Claim C4, the amended rule at the three calls of the specification:
  \<^verbatim>\<open>TransformStep(sql="SELECT 1")\<close> is built, \<^verbatim>\<open>TransformStep()\<close> and
  \<^verbatim>\<open>TransformStep(sql="SELECT 1", function="f")\<close> are rejected, in both classes.
\<close>

theorem C4_exactly_one_step_type_witness:
  "O_TransformStep_init (Some ''SELECT 1'') None None []
     = Inr \<lparr>ots_sql = Some ''SELECT 1'', ots_function = None, ots_operation = None,
            ots_params = []\<rparr>
   \<and> (\<forall>step. O_TransformStep_init None None None [] \<noteq> Inr step)
   \<and> (\<forall>step. O_TransformStep_init (Some ''SELECT 1'') (Some ''f'') None [] \<noteq> Inr step)
   \<and> L_TransformStep_init (Some ''SELECT 1'') None []
     = Inr \<lparr>lts_sql = Some ''SELECT 1'', lts_function = None, lts_params = []\<rparr>
   \<and> (\<forall>lstep. L_TransformStep_init None None [] \<noteq> Inr lstep)
   \<and> (\<forall>lstep. L_TransformStep_init (Some ''SELECT 1'') (Some ''f'') [] \<noteq> Inr lstep)"
  using C4_exactly_one_step_type [where sql = "Some ''SELECT 1''" and func = None
                                    and operation = None and params = "[]"]
        C4_exactly_one_step_type [where sql = None and func = None
                                    and operation = None and params = "[]"]
        C4_exactly_one_step_type [where sql = "Some ''SELECT 1''" and func = "Some ''f''"
                                    and operation = None and params = "[]"]
  by simp




text \<open>
  Claim C6, as stated, asks the construction to fail when \<^verbatim>\<open>depends_on\<close> contains the
  node's own name. NodeConfig of lesson.py accepts node \<^verbatim>\<open>a\<close> depending on \<^verbatim>\<open>a\<close>.
\<close>

theorem C6_self_reference_counterexample:
  "L_NodeConfig_init ''a'' [''a''] None
     = Inr \<lparr>lnc_name = ''a'', lnc_depends_on = [''a''], lnc_timeout = None\<rparr>"
proof -
  have n: "L_NodeConfig_validate_name ''a'' = Inr ''a''"
    by code_simp
  have d: "L_NodeConfig_validate_dependencies [''a''] = Inr [''a'']"
    by (simp add: L_NodeConfig_validate_dependencies_eq)
  show ?thesis
    unfolding L_NodeConfig_init_def n d by simp
qed

text \<open>
  Claim C6, amended. NodeConfig of lesson.py fails, with the duplicate-dependencies error,
  when \<^verbatim>\<open>depends_on\<close> has a repeated entry; with a valid name and a list without
  repetition it is constructed, whether or not the list contains the node's own name.
  NodeConfig of odibi\_snippets.py does not inspect \<^verbatim>\<open>depends_on\<close>: with one operation
  present it is constructed for every list.
\<close>

theorem C6_depends_on_checks:
  "(\<not> distinct depends_on \<longrightarrow>
      (\<exists>errs. L_NodeConfig_init name depends_on timeout = Inl errs
              \<and> ValueError ''Duplicate dependencies not allowed'' \<in> set errs))
   \<and> (L_NodeConfig_validate_name name = Inr n \<and> distinct depends_on \<longrightarrow>
      L_NodeConfig_init name depends_on timeout
        = Inr \<lparr>lnc_name = n, lnc_depends_on = depends_on, lnc_timeout = timeout\<rparr>)
   \<and> (rd \<noteq> None \<or> tr \<noteq> None \<or> wr \<noteq> None \<longrightarrow>
      O_NodeConfig_init name description depends_on rd tr wr cache validation
        = Inr \<lparr>onc_name = name, onc_description = description, onc_depends_on = depends_on,
               onc_read = rd, onc_transform = tr, onc_write = wr, onc_cache = cache,
               onc_validation = validation\<rparr>)"
proof (intro conjI impI)
  assume dup: "\<not> distinct depends_on"
  then show "\<exists>errs. L_NodeConfig_init name depends_on timeout = Inl errs
              \<and> ValueError ''Duplicate dependencies not allowed'' \<in> set errs"
    by (cases "L_NodeConfig_validate_name name")
       (simp_all add: L_NodeConfig_init_def L_NodeConfig_validate_dependencies_eq)
next
  assume "L_NodeConfig_validate_name name = Inr n \<and> distinct depends_on"
  then show "L_NodeConfig_init name depends_on timeout
        = Inr \<lparr>lnc_name = n, lnc_depends_on = depends_on, lnc_timeout = timeout\<rparr>"
    by (simp add: L_NodeConfig_init_def L_NodeConfig_validate_dependencies_eq)
next
  assume "rd \<noteq> None \<or> tr \<noteq> None \<or> wr \<noteq> None"
  then show "O_NodeConfig_init name description depends_on rd tr wr cache validation
        = Inr \<lparr>onc_name = name, onc_description = description, onc_depends_on = depends_on,
               onc_read = rd, onc_transform = tr, onc_write = wr, onc_cache = cache,
               onc_validation = validation\<rparr>"
    by (simp add: O_NodeConfig_init_def O_NodeConfig_check_at_least_one_operation_def)
qed

text \<open>
  Claim C6, the amended statement at the call of \<^verbatim>\<open>demo_validators\<close> with a repeated
  dependency, and at a node that lists itself.
\<close>

theorem C6_depends_on_checks_witness:
  "\<not> distinct [''src'', ''src'']
   \<and> L_NodeConfig_init ''transform'' [''src'', ''src''] None
       = Inl [ValueError ''Duplicate dependencies not allowed'']
   \<and> L_NodeConfig_init ''transform'' [''transform'', ''src''] None
       = Inr \<lparr>lnc_name = ''transform'', lnc_depends_on = [''transform'', ''src''],
              lnc_timeout = None\<rparr>"
proof -
  have n: "L_NodeConfig_validate_name ''transform'' = Inr ''transform''"
    by code_simp
  have dup: "\<not> distinct [''src'', ''src'']"
    by simp
  have ok: "distinct [''transform'', ''src'']"
    by simp
  from C6_depends_on_checks [where depends_on = "[''src'', ''src'']" and name = "''transform''"
                               and timeout = None] dup
  obtain errs where e: "L_NodeConfig_init ''transform'' [''src'', ''src''] None = Inl errs"
    by blast
  have "L_NodeConfig_init ''transform'' [''src'', ''src''] None
          = Inl [ValueError ''Duplicate dependencies not allowed'']"
    using e by (simp add: L_NodeConfig_init_def n L_NodeConfig_validate_dependencies_eq)
  moreover have "L_NodeConfig_init ''transform'' [''transform'', ''src''] None
       = Inr \<lparr>lnc_name = ''transform'', lnc_depends_on = [''transform'', ''src''],
              lnc_timeout = None\<rparr>"
    using C6_depends_on_checks [where depends_on = "[''transform'', ''src'']"
                                  and name = "''transform''" and n = "''transform''"
                                  and timeout = None] n ok
    by blast
  ultimately show ?thesis using dup by blast
qed

text \<open>
  Claim C7, as stated, lets the predicate hold of every constructed node thereafter. The
  classes are not frozen and do not validate assignments: on a node built with a read
  operation only, \<^verbatim>\<open>node.read = None\<close> is accepted and leaves a node without any operation.
\<close>

theorem C7_assignment_counterexample:
  "O_NodeConfig_init ''load_users'' None []
       (Some \<lparr>orc_connection = ''bronze'', orc_format = ''csv'', orc_table = None,
              orc_path = Some ''/data/users.csv'', orc_options = []\<rparr>)
       (None :: L_TransformConfig option) None False None
     = Inr \<lparr>onc_name = ''load_users'', onc_description = None, onc_depends_on = [],
            onc_read = Some \<lparr>orc_connection = ''bronze'', orc_format = ''csv'', orc_table = None,
                              orc_path = Some ''/data/users.csv'', orc_options = []\<rparr>,
            onc_transform = None, onc_write = None, onc_cache = False, onc_validation = None\<rparr>
   \<and> O_NodeConfig_setattr (Set_onc_read None)
       \<lparr>onc_name = ''load_users'', onc_description = None, onc_depends_on = [],
        onc_read = Some \<lparr>orc_connection = ''bronze'', orc_format = ''csv'', orc_table = None,
                          orc_path = Some ''/data/users.csv'', orc_options = []\<rparr>,
        onc_transform = (None :: L_TransformConfig option), onc_write = None, onc_cache = False,
        onc_validation = None\<rparr>
     = Inr \<lparr>onc_name = ''load_users'', onc_description = None, onc_depends_on = [],
            onc_read = None, onc_transform = None, onc_write = None, onc_cache = False,
            onc_validation = None\<rparr>"
  by (simp add: O_NodeConfig_init_def O_NodeConfig_check_at_least_one_operation_def
                O_NodeConfig_setattr_def setattr_def model_config_def)

text \<open>
  Claim C7, amended. Every NodeConfig (odibi\_snippets.py) and CompleteNodeConfig
  (lesson.py) has, as constructed, at least one of \<^verbatim>\<open>read\<close>, \<^verbatim>\<open>transform\<close>, \<^verbatim>\<open>write\<close>; a
  construction with none of the three fails; and the two validators, the only methods of
  the classes, return the object they are given unchanged.
\<close>

theorem C7_at_least_one_operation:
  "(O_NodeConfig_init name description depends_on rd tr wr cache validation = Inr node \<longrightarrow>
      onc_read node \<noteq> None \<or> onc_transform node \<noteq> None \<or> onc_write node \<noteq> None)
   \<and> (rd = None \<and> tr = None \<and> wr = None \<longrightarrow>
      O_NodeConfig_init name description depends_on rd tr wr cache validation
        = Inl [ValueError (''Node '' @ [CHR 0x27] @ name @ [CHR 0x27]
                           @ '' must have at least one of: read, transform, write'')])
   \<and> (L_CompleteNodeConfig_init name description depends_on lrd ltr lwr = Inr cnode \<longrightarrow>
      cnc_read cnode \<noteq> None \<or> cnc_transform cnode \<noteq> None \<or> cnc_write cnode \<noteq> None)
   \<and> (lrd = None \<and> ltr = None \<and> lwr = None \<longrightarrow>
      (\<exists>errs. L_CompleteNodeConfig_init name description depends_on lrd ltr lwr = Inl errs))
   \<and> (O_NodeConfig_check_at_least_one_operation self = Inr self' \<longrightarrow> self' = self)
   \<and> (L_CompleteNodeConfig_check_has_operation cself = Inr cself' \<longrightarrow> cself' = cself)"
proof (intro conjI impI)
  assume "O_NodeConfig_init name description depends_on rd tr wr cache validation = Inr node"
  then show "onc_read node \<noteq> None \<or> onc_transform node \<noteq> None \<or> onc_write node \<noteq> None"
    by (auto simp: O_NodeConfig_init_def O_NodeConfig_check_at_least_one_operation_def
             split: if_splits)
next
  assume "rd = None \<and> tr = None \<and> wr = None"
  then show "O_NodeConfig_init name description depends_on rd tr wr cache validation
        = Inl [ValueError (''Node '' @ [CHR 0x27] @ name @ [CHR 0x27]
                           @ '' must have at least one of: read, transform, write'')]"
    by (simp add: O_NodeConfig_init_def O_NodeConfig_check_at_least_one_operation_def)
next
  assume "L_CompleteNodeConfig_init name description depends_on lrd ltr lwr = Inr cnode"
  then show "cnc_read cnode \<noteq> None \<or> cnc_transform cnode \<noteq> None \<or> cnc_write cnode \<noteq> None"
    by (auto simp: L_CompleteNodeConfig_init_def L_CompleteNodeConfig_check_has_operation_def
             split: sum.splits if_splits)
next
  assume "lrd = None \<and> ltr = None \<and> lwr = None"
  then show "\<exists>errs. L_CompleteNodeConfig_init name description depends_on lrd ltr lwr = Inl errs"
    by (cases "L_CompleteNodeConfig_validate_name name")
       (simp_all add: L_CompleteNodeConfig_init_def L_CompleteNodeConfig_check_has_operation_def)
next
  assume "O_NodeConfig_check_at_least_one_operation self = Inr self'"
  then show "self' = self"
    by (simp add: O_NodeConfig_check_at_least_one_operation_def split: if_splits)
next
  assume "L_CompleteNodeConfig_check_has_operation cself = Inr cself'"
  then show "cself' = cself"
    by (simp add: L_CompleteNodeConfig_check_has_operation_def split: if_splits)
qed

text \<open>
  Claim C7, the amended statement at a node without operations, which is rejected by both
  classes, and at a node with a read operation.
\<close>

theorem C7_at_least_one_operation_witness:
  "O_NodeConfig_init ''empty_node'' None [] None (None :: L_TransformConfig option) None False None
     = Inl [ValueError ''Node 'empty_node' must have at least one of: read, transform, write'']
   \<and> (\<exists>errs. L_CompleteNodeConfig_init ''empty_node'' None [] None None None = Inl errs)
   \<and> (\<exists>node. O_NodeConfig_init ''load_users'' None []
                 (Some \<lparr>orc_connection = ''bronze'', orc_format = ''csv'', orc_table = None,
                        orc_path = Some ''/data/users.csv'', orc_options = []\<rparr>)
                 (None :: L_TransformConfig option) None False None = Inr node
              \<and> \<not> (onc_read node = None \<and> onc_transform node = None \<and> onc_write node = None))"
proof -
  let ?r = "\<lparr>orc_connection = ''bronze'', orc_format = ''csv'', orc_table = None,
             orc_path = Some ''/data/users.csv'', orc_options = []\<rparr>"
  let ?node = "\<lparr>onc_name = ''load_users'', onc_description = None, onc_depends_on = [],
                onc_read = Some ?r, onc_transform = (None :: L_TransformConfig option),
                onc_write = None, onc_cache = False, onc_validation = None\<rparr>"
  have built: "O_NodeConfig_init ''load_users'' None [] (Some ?r)
                 (None :: L_TransformConfig option) None False None = Inr ?node"
    by (simp add: O_NodeConfig_init_def O_NodeConfig_check_at_least_one_operation_def)
  have some: "onc_read ?node \<noteq> None \<or> onc_transform ?node \<noteq> None \<or> onc_write ?node \<noteq> None"
    using C7_at_least_one_operation [THEN conjunct1, rule_format, OF built] .
  have pos: "\<exists>node. O_NodeConfig_init ''load_users'' None [] (Some ?r)
                 (None :: L_TransformConfig option) None False None = Inr node
              \<and> \<not> (onc_read node = None \<and> onc_transform node = None \<and> onc_write node = None)"
  proof (intro exI conjI)
    show "O_NodeConfig_init ''load_users'' None [] (Some ?r)
            (None :: L_TransformConfig option) None False None = Inr ?node"
      by (rule built)
    show "\<not> (onc_read ?node = None \<and> onc_transform ?node = None \<and> onc_write ?node = None)"
      using some by simp
  qed
  have "O_NodeConfig_init ''empty_node'' None [] None (None :: L_TransformConfig option)
                None False None
     = Inl [ValueError (''Node '' @ [CHR 0x27] @ ''empty_node'' @ [CHR 0x27]
                        @ '' must have at least one of: read, transform, write'')]"
    by (rule C7_at_least_one_operation [THEN conjunct2, THEN conjunct1, rule_format]) simp
  then have neg1: "O_NodeConfig_init ''empty_node'' None [] None
                (None :: L_TransformConfig option) None False None
     = Inl [ValueError ''Node 'empty_node' must have at least one of: read, transform, write'']"
    by simp
  have neg2: "\<exists>errs. L_CompleteNodeConfig_init ''empty_node'' None [] None None None = Inl errs"
    by (rule C7_at_least_one_operation
               [THEN conjunct2, THEN conjunct2, THEN conjunct2, THEN conjunct1, rule_format]) simp
  show ?thesis
    by (intro conjI neg1 neg2 pos)
qed

text \<open>
  Claim C8, as stated, has every attempt to assign a field of a constructed object
  rejected. On a ReadConfig built with a path, \<^verbatim>\<open>r.path = None\<close> is accepted and stores
  \<^verbatim>\<open>None\<close>; the object that is left has neither path nor table.
\<close>

theorem C8_assignment_accepted_counterexample:
  "O_ReadConfig_init ''x'' ''csv'' None (Some ''/data/users.csv'') []
     = Inr \<lparr>orc_connection = ''x'', orc_format = ''csv'', orc_table = None,
            orc_path = Some ''/data/users.csv'', orc_options = []\<rparr>
   \<and> O_ReadConfig_setattr (Set_orc_path None)
       \<lparr>orc_connection = ''x'', orc_format = ''csv'', orc_table = None,
        orc_path = Some ''/data/users.csv'', orc_options = []\<rparr>
     = Inr \<lparr>orc_connection = ''x'', orc_format = ''csv'', orc_table = None,
            orc_path = None, orc_options = []\<rparr>"
  by (simp add: O_ReadConfig_init_def O_ReadConfig_check_table_or_path_def
                O_ReadConfig_setattr_def setattr_def model_config_def)

text \<open>
  Claim C8, amended. No method of ReadConfig, WriteConfig, TransformStep and NodeConfig
  (odibi\_snippets.py) changes a constructed object: each validator returns the object it
  is given unchanged. The objects are not immutable: an assignment to any field of a
  constructed object is accepted and stores the value, and no validator runs.
\<close>

theorem C8_validators_return_self_assignment_stores:
  "(O_ReadConfig_check_table_or_path r = Inr r' \<longrightarrow> r' = r)
   \<and> (O_WriteConfig_check_table_or_path w = Inr w' \<longrightarrow> w' = w)
   \<and> (O_TransformStep_check_step_type s = Inr s' \<longrightarrow> s' = s)
   \<and> (O_NodeConfig_check_at_least_one_operation n = Inr n' \<longrightarrow> n' = n)
   \<and> O_ReadConfig_setattr rfield r = Inr (O_ReadConfig_update rfield r)
   \<and> O_WriteConfig_setattr wfield w = Inr (O_WriteConfig_update wfield w)
   \<and> O_TransformStep_setattr sfield s = Inr (O_TransformStep_update sfield s)
   \<and> O_NodeConfig_setattr nfield n = Inr (O_NodeConfig_update nfield n)"
proof (intro conjI impI)
  assume "O_ReadConfig_check_table_or_path r = Inr r'"
  then show "r' = r"
    by (simp add: O_ReadConfig_check_table_or_path_def split: if_splits)
next
  assume "O_WriteConfig_check_table_or_path w = Inr w'"
  then show "w' = w"
    by (simp add: O_WriteConfig_check_table_or_path_def split: if_splits)
next
  assume "O_TransformStep_check_step_type s = Inr s'"
  then show "s' = s"
    by (simp add: O_TransformStep_check_step_type_def Let_def split: if_splits)
next
  assume "O_NodeConfig_check_at_least_one_operation n = Inr n'"
  then show "n' = n"
    by (simp add: O_NodeConfig_check_at_least_one_operation_def split: if_splits)
next
  show "O_ReadConfig_setattr rfield r = Inr (O_ReadConfig_update rfield r)"
    by (simp add: O_ReadConfig_setattr_def setattr_def model_config_def)
  show "O_WriteConfig_setattr wfield w = Inr (O_WriteConfig_update wfield w)"
    by (simp add: O_WriteConfig_setattr_def setattr_def model_config_def)
  show "O_TransformStep_setattr sfield s = Inr (O_TransformStep_update sfield s)"
    by (simp add: O_TransformStep_setattr_def setattr_def model_config_def)
  show "O_NodeConfig_setattr nfield n = Inr (O_NodeConfig_update nfield n)"
    by (simp add: O_NodeConfig_setattr_def setattr_def model_config_def)
qed

text \<open>
  Claim C8, the amended statement at a WriteConfig, whose validator returns it unchanged and
  whose \<^verbatim>\<open>mode\<close> is then assigned, and at a TransformStep whose \<^verbatim>\<open>sql\<close> is assigned.
\<close>

theorem C8_validators_return_self_assignment_stores_witness:
  "O_WriteConfig_check_table_or_path
       \<lparr>owc_connection = ''silver'', owc_format = ''delta'', owc_table = Some ''silver.users'',
        owc_path = None, owc_mode = OVERWRITE, owc_options = []\<rparr>
     = Inr \<lparr>owc_connection = ''silver'', owc_format = ''delta'', owc_table = Some ''silver.users'',
            owc_path = None, owc_mode = OVERWRITE, owc_options = []\<rparr>
   \<and> O_WriteConfig_setattr (Set_owc_mode APPEND)
       \<lparr>owc_connection = ''silver'', owc_format = ''delta'', owc_table = Some ''silver.users'',
        owc_path = None, owc_mode = OVERWRITE, owc_options = []\<rparr>
     = Inr \<lparr>owc_connection = ''silver'', owc_format = ''delta'', owc_table = Some ''silver.users'',
            owc_path = None, owc_mode = APPEND, owc_options = []\<rparr>
   \<and> O_TransformStep_setattr (Set_ots_sql None)
       \<lparr>ots_sql = Some ''SELECT 1'', ots_function = None, ots_operation = None, ots_params = []\<rparr>
     = Inr \<lparr>ots_sql = None, ots_function = None, ots_operation = None, ots_params = []\<rparr>"
proof -
  let ?w = "\<lparr>owc_connection = ''silver'', owc_format = ''delta'', owc_table = Some ''silver.users'',
             owc_path = None, owc_mode = OVERWRITE, owc_options = []\<rparr>"
  let ?s = "\<lparr>ots_sql = Some ''SELECT 1'', ots_function = None, ots_operation = None,
             ots_params = []\<rparr>"
  obtain w' where ok: "O_WriteConfig_check_table_or_path ?w = Inr w'"
    by (simp add: O_WriteConfig_check_table_or_path_def)
  then have "w' = ?w"
    by (rule C8_validators_return_self_assignment_stores
               [THEN conjunct2, THEN conjunct1, rule_format])
  with ok have a: "O_WriteConfig_check_table_or_path ?w = Inr ?w"
    by simp
  have "O_WriteConfig_setattr (Set_owc_mode APPEND) ?w
          = Inr (O_WriteConfig_update (Set_owc_mode APPEND) ?w)"
    by (rule C8_validators_return_self_assignment_stores
               [THEN conjunct2, THEN conjunct2, THEN conjunct2, THEN conjunct2, THEN conjunct2,
                THEN conjunct1])
  then have b: "O_WriteConfig_setattr (Set_owc_mode APPEND) ?w
             = Inr \<lparr>owc_connection = ''silver'', owc_format = ''delta'',
                    owc_table = Some ''silver.users'', owc_path = None, owc_mode = APPEND,
                    owc_options = []\<rparr>"
    by simp
  have "O_TransformStep_setattr (Set_ots_sql None) ?s
          = Inr (O_TransformStep_update (Set_ots_sql None) ?s)"
    by (rule C8_validators_return_self_assignment_stores
               [THEN conjunct2, THEN conjunct2, THEN conjunct2, THEN conjunct2, THEN conjunct2,
                THEN conjunct2, THEN conjunct1])
  then have c: "O_TransformStep_setattr (Set_ots_sql None) ?s
             = Inr \<lparr>ots_sql = None, ots_function = None, ots_operation = None, ots_params = []\<rparr>"
    by simp
  show ?thesis
    by (intro conjI a b c)
qed

text \<open>
  Claim C9 asks the pipeline's \<^verbatim>\<open>retry_attempts\<close> to be between 0 and 10 and its
  \<^verbatim>\<open>max_parallel\<close> to be at least 1. PipelineConfig is declared with an empty body; the
  two fields and their bounds stand in the comment above it only. A document with
  \<^verbatim>\<open>max_parallel=0\<close> and \<^verbatim>\<open>retry_attempts=11\<close> is accepted.
\<close>

theorem C9_out_of_range_settings_accepted:
  "E_PipelineConfig_init
     [(''pipeline'', PStr ''etl''),
      (''jobs'', PList [PDict [(''name'', PStr ''extract'')]]),
      (''max_parallel'', PInt 0),
      (''retry_attempts'', PInt 11)]
     = Inr E_PipelineConfig"
  by (simp add: E_PipelineConfig_init_def)

text \<open>
  Claim C10. In ReadConfig and WriteConfig of odibi\_snippets.py the presence of \<^verbatim>\<open>path\<close>
  and \<^verbatim>\<open>table\<close> is decided by truth value, so an empty string counts as absent: with
  \<^verbatim>\<open>path=""\<close> and no table, or \<^verbatim>\<open>table=""\<close> and no path, the construction fails with
  the either-table-or-path error, whatever the other fields are.
\<close>

theorem C10_empty_string_counts_as_absent:
  "O_ReadConfig_init connection format None (Some '''') options
     = Inl [ValueError ''Either 'table' or 'path' must be provided for read config'']
   \<and> O_ReadConfig_init connection format (Some '''') None options
     = Inl [ValueError ''Either 'table' or 'path' must be provided for read config'']
   \<and> O_WriteConfig_init connection format None (Some '''') mode options
     = Inl [ValueError ''Either 'table' or 'path' must be provided for write config'']
   \<and> O_WriteConfig_init connection format (Some '''') None mode options
     = Inl [ValueError ''Either 'table' or 'path' must be provided for write config'']"
  by (simp add: O_ReadConfig_init_def O_ReadConfig_check_table_or_path_def
                O_WriteConfig_init_def O_WriteConfig_check_table_or_path_def)

end
